theory Spec2Isabelle
  imports Complex_Main
begin

section \<open>JavaScript numbers\<close>

text \<open>
  A JavaScript number is an IEEE 754 double: a finite value, one of the two infinities,
  or \<^verbatim>\<open>NaN\<close>. \<open>Finite x\<close> is the double whose exact value is the real \<open>x\<close>. The two
  zeros are not told apart (they are equal under \<^verbatim>\<open>===\<close> and both falsy, and nothing
  here divides).
\<close>

datatype number =
    Finite real
  | PlusInfinity
  | MinusInfinity
  | NaN

text \<open>
  The arithmetic of doubles rounds each exact result to a double. The rounding is the
  parameter \<open>rnd\<close> of everything that computes: \<open>rnd x\<close> is the double nearest to the
  real \<open>x\<close>, an infinity when \<open>x\<close> is beyond the range of the doubles. The value of a
  decimal literal such as \<^verbatim>\<open>999.99\<close> is \<open>rnd 999.99\<close>.
\<close>

fun is_negative :: "number \<Rightarrow> bool" where
  "is_negative (Finite x) = (x < 0)"
| "is_negative MinusInfinity = True"
| "is_negative _ = False"

definition infinity :: "bool \<Rightarrow> number" where
  "infinity negative = (if negative then MinusInfinity else PlusInfinity)"

text \<open>\<^verbatim>\<open>a * b\<close> on numbers.\<close>

fun js_times :: "(real \<Rightarrow> number) \<Rightarrow> number \<Rightarrow> number \<Rightarrow> number" where
  "js_times rnd NaN b = NaN"
| "js_times rnd a NaN = NaN"
| "js_times rnd (Finite x) (Finite y) = rnd (x * y)"
| "js_times rnd (Finite x) b = (if x = 0 then NaN else infinity ((x < 0) \<noteq> is_negative b))"
| "js_times rnd a (Finite y) = (if y = 0 then NaN else infinity (is_negative a \<noteq> (y < 0)))"
| "js_times rnd a b = infinity (is_negative a \<noteq> is_negative b)"

text \<open>\<^verbatim>\<open>a + b\<close> on numbers.\<close>

fun js_plus :: "(real \<Rightarrow> number) \<Rightarrow> number \<Rightarrow> number \<Rightarrow> number" where
  "js_plus rnd NaN b = NaN"
| "js_plus rnd a NaN = NaN"
| "js_plus rnd (Finite x) (Finite y) = rnd (x + y)"
| "js_plus rnd (Finite x) b = b"
| "js_plus rnd a (Finite y) = a"
| "js_plus rnd a b = (if a = b then a else NaN)"

text \<open>\<^verbatim>\<open>a > b\<close> on numbers: false as soon as one of them is \<^verbatim>\<open>NaN\<close>.\<close>

fun js_greater :: "number \<Rightarrow> number \<Rightarrow> bool" where
  "js_greater NaN b = False"
| "js_greater a NaN = False"
| "js_greater (Finite x) (Finite y) = (x > y)"
| "js_greater a MinusInfinity = (a \<noteq> MinusInfinity)"
| "js_greater PlusInfinity b = (b \<noteq> PlusInfinity)"
| "js_greater a b = False"

text \<open>
  Integers up to \<open>2 ^ 53\<close> in absolute value are doubles, so the rounding of IEEE 754
  leaves them as they are. Where a statement needs an exact result it assumes this of
  \<open>rnd\<close>.
\<close>

definition exact_on_safe_integers :: "(real \<Rightarrow> number) \<Rightarrow> bool" where
  "exact_on_safe_integers rnd \<longleftrightarrow> (\<forall>k::int. \<bar>k\<bar> \<le> 2 ^ 53 \<longrightarrow> rnd (of_int k) = Finite (of_int k))"

section \<open>JavaScript values and errors\<close>

text \<open>
  The order model of \<^verbatim>\<open>src/models/order.js\<close> works on plain JavaScript objects. The
  values a field can hold are modelled by \<open>jsval\<close>. A field that is absent from an
  object reads as \<open>JUndefined\<close>.
\<close>

datatype jsval =
    JUndefined
  | JNull
  | JBool bool
  | JNum number
  | JStr string
  | JArr "jsval list"

text \<open>JavaScript's \<^verbatim>\<open>ToBoolean\<close>: what \<^verbatim>\<open>!v\<close>, \<^verbatim>\<open>v || w\<close> and \<^verbatim>\<open>v && w\<close> test.\<close>

fun truthy :: "jsval \<Rightarrow> bool" where
  "truthy JUndefined = False"
| "truthy JNull = False"
| "truthy (JBool b) = b"
| "truthy (JNum n) = (n \<noteq> Finite 0 \<and> n \<noteq> NaN)"
| "truthy (JStr s) = (s \<noteq> [])"
| "truthy (JArr vs) = True"

fun typeof :: "jsval \<Rightarrow> string" where
  "typeof JUndefined = ''undefined''"
| "typeof JNull = ''object''"
| "typeof (JBool b) = ''boolean''"
| "typeof (JNum n) = ''number''"
| "typeof (JStr s) = ''string''"
| "typeof (JArr vs) = ''object''"

text \<open>
  A thrown exception is a value: \<open>Error m\<close> is \<^verbatim>\<open>new Error(m)\<close>; \<open>TypeError\<close> and
  \<open>ReferenceError\<close> are the exceptions the language itself raises (a property read on
  \<^verbatim>\<open>undefined\<close>, a call of something that is not a function, a read of an undeclared
  identifier).
\<close>

datatype error =
    Error string
  | TypeError string
  | ReferenceError string

text \<open>
  \<^verbatim>\<open>String(e)\<close> for an exception \<open>e\<close>: its name alone when the message is empty,
  and otherwise its name, a colon and its message.
\<close>

definition name_and_message :: "string \<Rightarrow> string \<Rightarrow> string" where
  "name_and_message name msg = (if msg = [] then name else name @ '': '' @ msg)"

fun String :: "error \<Rightarrow> string" where
  "String (Error m) = name_and_message ''Error'' m"
| "String (TypeError m) = name_and_message ''TypeError'' m"
| "String (ReferenceError m) = name_and_message ''ReferenceError'' m"

section \<open>Order items and the order total\<close>

text \<open>
  An order item has an \<^verbatim>\<open>itemId\<close>, a \<^verbatim>\<open>price\<close> and an optional \<^verbatim>\<open>qty\<close>.
  \<^verbatim>\<open>checkItems\<close> tests \<^verbatim>\<open>itemId\<close> for truthiness and \<^verbatim>\<open>price\<close> for being a
  number, so both are arbitrary values here; \<^verbatim>\<open>qty\<close> is never checked by the code and
  is typed as an optional number (\<open>None\<close> when the item has no \<^verbatim>\<open>qty\<close>): a
  \<^verbatim>\<open>qty\<close> that is not a number is outside the model.
\<close>

record item =
  itemId :: jsval
  price :: jsval
  qty :: "number option"

text \<open>
  The \<^verbatim>\<open>orderItems\<close> argument: \<open>Absent\<close> stands for \<^verbatim>\<open>undefined\<close>, \<^verbatim>\<open>null\<close> or
  any other falsy value, \<open>Single i\<close> for one item object that is not an array, and
  \<open>Array xs\<close> for an array of items.
\<close>

datatype items_arg =
    Absent
  | Single item
  | Array "item list"

text \<open>
  \<^verbatim>\<open>
  export const checkItems = function (orderItems) {
    if (!orderItems) {
      throw new Error("order contains no items");
    }
    const items = Array.isArray(orderItems) ? orderItems : [orderItems];
    if (
      items.length > 0 &&
      items.every((i) => i.itemId && typeof i.price === "number")
    ) {
      return items;
    }
    throw new Error("order items invalid");
  };
  \<close>
\<close>

fun checkItems :: "items_arg \<Rightarrow> error + item list" where
  "checkItems Absent = Inl (Error ''order contains no items'')"
| "checkItems orderItems =
     (let items = (case orderItems of Array xs \<Rightarrow> xs | Single i \<Rightarrow> [i])
      in if length items > 0 \<and>
            list_all (\<lambda>i. truthy (itemId i) \<and> typeof (price i) = ''number'') items
         then Inr items
         else Inl (Error ''order items invalid''))"

text \<open>
  The number held by a value whose \<^verbatim>\<open>typeof\<close> is \<^verbatim>\<open>"number"\<close>. \<^verbatim>\<open>calcTotal\<close>
  multiplies only the prices of items that \<^verbatim>\<open>checkItems\<close> has accepted, which are
  numbers (lemma \<open>checkItems_prices\<close> below); the value on anything else is never used.
\<close>

fun number_of :: "jsval \<Rightarrow> number" where
  "number_of (JNum n) = n"
| "number_of _ = NaN"

text \<open>
  \<^verbatim>\<open>item.qty || 1\<close>: an absent \<^verbatim>\<open>qty\<close> and the falsy numbers \<^verbatim>\<open>0\<close> and
  \<^verbatim>\<open>NaN\<close> all give 1.
\<close>

definition qty_or_1 :: "item \<Rightarrow> number" where
  "qty_or_1 i = (case qty i of None \<Rightarrow> Finite 1 | Some q \<Rightarrow> if truthy (JNum q) then q else Finite 1)"

text \<open>
  \<^verbatim>\<open>
  export const calcTotal = function (orderItems) {
    const items = checkItems(orderItems);
    return items.reduce((total, item) => {
      const qty = item.qty || 1;
      return (total += item.price * qty);
    }, 0);
  };
  \<close>
\<close>

definition calcTotal :: "(real \<Rightarrow> number) \<Rightarrow> items_arg \<Rightarrow> error + number" where
  "calcTotal rnd orderItems =
     (case checkItems orderItems of
        Inl e \<Rightarrow> Inl e
      | Inr items \<Rightarrow>
          Inr (foldl (\<lambda>total item. let qty = qty_or_1 item
                                    in js_plus rnd total (js_times rnd (number_of (price item)) qty))
                 (Finite 0) items))"

section \<open>The order\<close>

text \<open>
  \<^verbatim>\<open>
  export const OrderStatus = {
    PENDING: "PENDING", APPROVED: "APPROVED", SHIPPING: "SHIPPING",
    COMPLETE: "COMPLETE", CANCELED: "CANCELED",
  };
  \<close>
\<close>

datatype status = PENDING | APPROVED | SHIPPING | COMPLETE | CANCELED

text \<open>
  An order-shaped object: the object the factory builds, the object of changes handed to
  \<^verbatim>\<open>order.update\<close>, and the previous snapshot kept under the \<^verbatim>\<open>PREVMODEL\<close> key
  all have these fields. A field that the object does not have is \<open>JUndefined\<close>, and
  \<open>None\<close> for \<open>orderStatus\<close>, whose values are the five \<^verbatim>\<open>OrderStatus\<close> strings (all
  of them truthy).
\<close>

record Order =
  customerInfo :: jsval
  orderItems :: items_arg
  creditCardNumber :: jsval
  billingAddress :: jsval
  shippingAddress :: jsval
  signatureRequired :: jsval
  orderTotal :: jsval
  orderStatus :: "status option"
  orderNo :: jsval
  paymentAuthorization :: jsval
  receipt :: jsval
  pickupAddress :: jsval
  shipmentId :: jsval
  trackingId :: jsval
  trackingStatus :: jsval
  proofOfDelivery :: jsval

text \<open>The object literal \<^verbatim>\<open>{}\<close> seen as an order-shaped object: no field is present.\<close>

definition emptyObject :: Order where
  "emptyObject =
     \<lparr> customerInfo = JUndefined, orderItems = Absent, creditCardNumber = JUndefined,
       billingAddress = JUndefined, shippingAddress = JUndefined,
       signatureRequired = JUndefined, orderTotal = JUndefined, orderStatus = None,
       orderNo = JUndefined, paymentAuthorization = JUndefined, receipt = JUndefined,
       pickupAddress = JUndefined, shipmentId = JUndefined, trackingId = JUndefined,
       trackingStatus = JUndefined, proofOfDelivery = JUndefined \<rparr>"

text \<open>
  The object \<open>ob\<close> (\<^verbatim>\<open>o\<close> in the source) that a guard receives: the order
  under update together with the previous snapshot under the \<^verbatim>\<open>PREVMODEL\<close> key (a symbol imported from the mixins
  module). \<open>None\<close> is an object without that key, as on the first write.
\<close>

record guarded = Order +
  PREVMODEL :: "Order option"

text \<open>The guarded object made of an order and of its previous snapshot.\<close>

definition guard_input :: "Order \<Rightarrow> Order option \<Rightarrow> guarded" where
  "guard_input order prev = Order.extend order (guarded.fields prev)"

section \<open>Guards\<close>

text \<open>
  \<^verbatim>\<open>
  export const freezeOnApproval = (propKey) => (o) => {
    return o[PREVMODEL].orderStatus !== OrderStatus.PENDING ? propKey : null;
  };
  export const freezeOnCompletion = (propKey) => (o) => {
    return [
        OrderStatus.COMPLETE,
        OrderStatus.CANCELED
      ].includes(o[PREVMODEL].orderStatus) ? propKey : null;
  };
  \<close>
  The result is the key (\<open>Some propKey\<close>) or \<^verbatim>\<open>null\<close> (\<open>None\<close>). Reading
  \<^verbatim>\<open>.orderStatus\<close> of an absent snapshot raises a \<^verbatim>\<open>TypeError\<close>.
\<close>

definition freezeOnApproval :: "string \<Rightarrow> guarded \<Rightarrow> error + string option" where
  "freezeOnApproval propKey ob =
     (case PREVMODEL ob of
        None \<Rightarrow> Inl (TypeError ''Cannot read properties of undefined (reading orderStatus)'')
      | Some prev \<Rightarrow> Inr (if orderStatus prev \<noteq> Some PENDING then Some propKey else None))"

definition freezeOnCompletion :: "string \<Rightarrow> guarded \<Rightarrow> error + string option" where
  "freezeOnCompletion propKey ob =
     (case PREVMODEL ob of
        None \<Rightarrow> Inl (TypeError ''Cannot read properties of undefined (reading orderStatus)'')
      | Some prev \<Rightarrow>
          Inr (if orderStatus prev \<in> set [Some COMPLETE, Some CANCELED]
               then Some propKey else None))"

text \<open>
  Modelled from the spec: the step of the guarded update path that applies a freeze guard
  to a proposed update of one field. It belongs to the mixins module of the model
  framework, which is not part of these sources. The specification says: ``Guards run
  on every proposed update before it is committed; each guard either passes, strips a
  field, or rejects the whole update'', a freeze guard ``returns the field name to
  block'', ``any thrown error aborts the whole update'', and ``for all orders with
  previous status in COMPLETE, CANCELED, any field update fails''. So the update of
  \<open>field\<close> under the guard \<open>guard field\<close> fails when the guard returns a field name or
  throws, and passes when the guard returns \<^verbatim>\<open>null\<close>. The specification gives
  no message for the failure; the model names the blocked field.
\<close>

definition frozenUpdate ::
  "(string \<Rightarrow> guarded \<Rightarrow> error + string option) \<Rightarrow> string \<Rightarrow> guarded \<Rightarrow> error + unit" where
  "frozenUpdate guard field ob =
     (case guard field ob of
        Inl e \<Rightarrow> Inl e
      | Inr (Some key) \<Rightarrow> Inl (Error (''field is frozen: '' @ key))
      | Inr None \<Rightarrow> Inr ())"

text \<open>
  \<^verbatim>\<open>
  const invalidStatusChange = (from, to) => (o, propVal) => {
    return propVal === to && o[PREVMODEL].orderStatus === from;
  };
  \<close>
  \<^verbatim>\<open>statusChangeValid\<close> calls it only after it has found a previous status, so the
  snapshot is there; on an object without one the read would raise, which the model
  keeps as \<open>None\<close>.
\<close>

definition invalidStatusChange :: "status \<Rightarrow> status \<Rightarrow> guarded \<Rightarrow> status \<Rightarrow> bool option" where
  "invalidStatusChange from to ob propVal =
     (if propVal = to
      then (case PREVMODEL ob of None \<Rightarrow> None | Some prev \<Rightarrow> Some (orderStatus prev = Some from))
      else Some False)"

text \<open>
  \<^verbatim>\<open>
  const invalidStatusChanges = [
    // Can't change back to pending once approved
    invalidStatusChange(OrderStatus.APPROVED, OrderStatus.PENDING),
    // Can't change back to pending once shipped
    invalidStatusChange(OrderStatus.SHIPPING, OrderStatus.PENDING),
    // Can't change back to approved once shipped
    invalidStatusChange(OrderStatus.SHIPPING, OrderStatus.APPROVED),
    // Can't change directly to shipping from pending
    invalidStatusChange(OrderStatus.PENDING, OrderStatus.SHIPPING),
    // Can't change directly to complete from pending
    invalidStatusChange(OrderStatus.PENDING, OrderStatus.COMPLETE),
  ];
  \<close>
\<close>

definition invalidStatusChanges :: "(guarded \<Rightarrow> status \<Rightarrow> bool option) list" where
  "invalidStatusChanges =
     [ invalidStatusChange APPROVED PENDING,
       invalidStatusChange SHIPPING PENDING,
       invalidStatusChange SHIPPING APPROVED,
       invalidStatusChange PENDING SHIPPING,
       invalidStatusChange PENDING COMPLETE ]"

text \<open>
  \<^verbatim>\<open>xs.some(f)\<close> where \<open>f\<close> may raise: the elements are tried in order, the first
  \<^verbatim>\<open>true\<close> ends the search, and a raise (\<open>None\<close>) ends it too.
\<close>

fun some :: "('a \<Rightarrow> bool option) \<Rightarrow> 'a list \<Rightarrow> bool option" where
  "some f [] = Some False"
| "some f (x # xs) =
     (case f x of None \<Rightarrow> None | Some b \<Rightarrow> if b then Some True else some f xs)"

text \<open>
  \<^verbatim>\<open>
  export const statusChangeValid = (o, propVal) => {
    if (!o[PREVMODEL]?.orderStatus) return true;
    if (invalidStatusChanges.some((isc) => isc(o, propVal))) {
      throw new Error("invalid status change");
    }
    return true;
  };
  \<close>
\<close>

definition statusChangeValid :: "guarded \<Rightarrow> status \<Rightarrow> error + bool" where
  "statusChangeValid ob propVal =
     (if (case PREVMODEL ob of None \<Rightarrow> True | Some prev \<Rightarrow> orderStatus prev = None)
      then Inr True
      else (case some (\<lambda>isc. isc ob propVal) invalidStatusChanges of
              None \<Rightarrow> Inl (TypeError ''Cannot read properties of undefined (reading orderStatus)'')
            | Some b \<Rightarrow> if b then Inl (Error ''invalid status change'') else Inr True))"

text \<open>
  \<^verbatim>\<open>
  export const updateSignature = (o, propVal) => ({
    signatureRequired: calcTotal(propVal) > 999.99 || o.signatureRequired,
  });
  \<close>
  The result is the value of the \<^verbatim>\<open>signatureRequired\<close> key of the returned object.
  \<^verbatim>\<open>a || b\<close> is \<open>a\<close> when \<open>a\<close> is truthy and \<open>b\<close> itself otherwise.
\<close>

definition updateSignature :: "(real \<Rightarrow> number) \<Rightarrow> guarded \<Rightarrow> items_arg \<Rightarrow> error + jsval" where
  "updateSignature rnd ob propVal =
     (case calcTotal rnd propVal of
        Inl e \<Rightarrow> Inl e
      | Inr t \<Rightarrow> Inr (if js_greater t (rnd 999.99) then JBool True else signatureRequired ob))"

text \<open>
  \<^verbatim>\<open>
  export const recalcTotal = (o, propVal) => ({
    orderTotal: calcTotal(propVal),
  });
  \<close>
\<close>

definition recalcTotal :: "(real \<Rightarrow> number) \<Rightarrow> guarded \<Rightarrow> items_arg \<Rightarrow> error + jsval" where
  "recalcTotal rnd ob propVal =
     (case calcTotal rnd propVal of Inl e \<Rightarrow> Inl e | Inr t \<Rightarrow> Inr (JNum t))"

section \<open>Promises\<close>

text \<open>
  An \<^verbatim>\<open>async\<close> function returns a promise. A promise is modelled by its state at the
  moment it is looked at: still pending, fulfilled with a value, or rejected with an
  exception. A function of promises then says in which state its own promise is, given
  the states of the promises it depends on.
\<close>

datatype 'a promise =
    Pending
  | Fulfilled 'a
  | Rejected error

text \<open>
  \<^verbatim>\<open>Promise.all(ps)\<close>: rejected as soon as one of \<open>ps\<close> is rejected, with the reason
  of the one that was rejected first in time; fulfilled with the array of values once all
  of \<open>ps\<close> are fulfilled; pending otherwise. To tell which rejection came first, each
  promise comes with the tick of the event loop at which it was settled (of no use while
  it is pending). Settlements happen one after the other, so two ticks are never equal;
  on equal ticks the model keeps the first in the list.
\<close>

fun earliest :: "nat \<times> error \<Rightarrow> (nat \<times> error) list \<Rightarrow> nat \<times> error" where
  "earliest best [] = best"
| "earliest best (r # rs) = earliest (if fst r < fst best then r else best) rs"

definition Promise_all :: "(jsval promise \<times> nat) list \<Rightarrow> jsval promise" where
  "Promise_all ps =
     (case [(t, e). (Rejected e, t) \<leftarrow> ps] of
        r # rs \<Rightarrow> Rejected (snd (earliest r rs))
      | [] \<Rightarrow> if Pending \<in> set (map fst ps) then Pending
              else Fulfilled (JArr [v. (Fulfilled v, t) \<leftarrow> ps]))"

text \<open>
  \<^verbatim>\<open>await p\<close> as the last step of an \<^verbatim>\<open>async\<close> function whose own result is
  \<^verbatim>\<open>undefined\<close>: the function is suspended while \<open>p\<close> is pending.
\<close>

fun await_then_undefined :: "jsval promise \<Rightarrow> jsval promise" where
  "await_then_undefined Pending = Pending"
| "await_then_undefined (Fulfilled v) = Fulfilled JUndefined"
| "await_then_undefined (Rejected e) = Rejected e"

section \<open>Continuations called by the adapters\<close>

record options =
  model :: Order

text \<open>The object \<^verbatim>\<open>{ done, order }\<close> that \<^verbatim>\<open>trackingUpdate\<close> returns.\<close>

record tracking_result =
  result_done :: bool
  result_order :: Order

text \<open>
  \<^verbatim>\<open>order.update\<close> belongs to the model framework, which is not part of these sources:
  it is the parameter \<open>update\<close>, from the order and the object of changes to the promise
  of the updated order. Every continuation returns the list of change objects it has
  handed to \<^verbatim>\<open>order.update\<close>, in order, and its own promise.

  \<^verbatim>\<open>
  export async function trackingUpdate(options, trackingId, trackingStatus) {
    const { model: order } = options;
    if (!trackingId || !trackingStatus) {
      throw new Error("trackingId or trackingStatus missing");
    }
    return {
      done: trackingStatus === "orderDelivered",
      order: await order.update({ trackingId, trackingStatus }),
    };
  }
  \<close>
\<close>

definition trackingUpdate ::
  "(Order \<Rightarrow> Order \<Rightarrow> Order promise) \<Rightarrow> options \<Rightarrow> jsval \<Rightarrow> jsval
     \<Rightarrow> Order list \<times> tracking_result promise" where
  "trackingUpdate update opts trackingId' trackingStatus' =
     (let order = model opts
      in if \<not> truthy trackingId' \<or> \<not> truthy trackingStatus'
         then ([], Rejected (Error ''trackingId or trackingStatus missing''))
         else
           (let changes = emptyObject\<lparr>trackingId := trackingId', trackingStatus := trackingStatus'\<rparr>
            in ([changes],
                case update order changes of
                  Pending \<Rightarrow> Pending
                | Rejected e \<Rightarrow> Rejected e
                | Fulfilled updated \<Rightarrow>
                    Fulfilled \<lparr> result_done = (trackingStatus' = JStr ''orderDelivered''),
                                result_order = updated \<rparr>)))"

text \<open>
  \<^verbatim>\<open>
  export async function orderShipped(options, shipmentId) {
    const { model: order } = options;
    if (!shipmentId) {
      throw new Error("shipmentId missing");
    }
    return order.update({ shipmentId, orderStatus: OrderStatus.SHIPPING });
  }
  \<close>
\<close>

definition orderShipped ::
  "(Order \<Rightarrow> Order \<Rightarrow> Order promise) \<Rightarrow> options \<Rightarrow> jsval \<Rightarrow> Order list \<times> Order promise" where
  "orderShipped update opts shipmentId' =
     (let order = model opts
      in if \<not> truthy shipmentId'
         then ([], Rejected (Error ''shipmentId missing''))
         else
           (let changes = emptyObject\<lparr>shipmentId := shipmentId', orderStatus := Some SHIPPING\<rparr>
            in ([changes], update order changes)))"

section \<open>The per-status actions and the event dispatcher\<close>

text \<open>
  The methods of the order that call out to the adapters. What a call does is the
  parameter \<open>adapters\<close>: \<open>Inl e\<close> when the call raises \<open>e\<close> before it returns, and
  \<open>Inr (p, t)\<close> when it returns a promise, \<open>p\<close> being the state of that promise and
  \<open>t\<close> the tick at which it was settled.
\<close>

datatype port = validateAddress | authorizePayment | pickOrder | trackShipment | compensate

datatype effect =
    PortCall port
  | console_error status error
  | console_log string

text \<open>
  \<^verbatim>\<open>
  function handleError(error, func) {
    console.error({ func, error });
    throw new Error(error);
  }
  \<close>
  The effect and the exception thrown.
\<close>

definition handleError :: "error \<Rightarrow> status \<Rightarrow> effect list \<times> error" where
  "handleError e func = ([console_error func e], Error (String e))"

text \<open>
  \<^verbatim>\<open>
  const OrderActions = {
    [OrderStatus.PENDING]: async (order) => {
      try {
        // Need a synchronous response
        return Promise.all([
          order.validateAddress(addressValidated),
          order.authorizePayment(paymentAuthorized),
        ]);
      } catch (error) {
        handleError(error, OrderStatus.PENDING);
      }
    },
    [OrderStatus.APPROVED]: async (order) => {
      try {
        // don't block the caller waiting for promise
        order.pickOrder(orderPicked);
      } catch (error) {
        handleError(error, OrderStatus.APPROVED);
      }
    },
    [OrderStatus.SHIPPING]: async (order) => {
      try {
        // don't block the caller waiting for this
        order.trackShipment(trackingUpdate);
      } catch (error) {
        handleError(error, OrderStatus.SHIPPING);
      }
    },
    [OrderStatus.CANCELED]: async (order) => {
      try {
        order.compensate();
      } catch (error) {
        handleError(error, OrderStatus.CANCELED);
      }
    },
    [OrderStatus.COMPLETE]: async (order) => {
      console.log("do customer sentiment etc");
      return;
    },
  };
  \<close>
  An action gives the effects it has had by the time it hands its promise to the caller,
  and that promise. The promise of an \<^verbatim>\<open>async\<close> function that returns a promise
  follows the returned promise; one that returns nothing is fulfilled with
  \<^verbatim>\<open>undefined\<close>; one that throws is rejected.
\<close>

fun OrderActions :: "(port \<Rightarrow> error + jsval promise \<times> nat) \<Rightarrow> status \<Rightarrow> effect list \<times> jsval promise" where
  "OrderActions adapters PENDING =
     (case adapters validateAddress of
        Inl e \<Rightarrow>
          (PortCall validateAddress # fst (handleError e PENDING),
           Rejected (snd (handleError e PENDING)))
      | Inr address \<Rightarrow>
          (case adapters authorizePayment of
             Inl e \<Rightarrow>
               ([PortCall validateAddress, PortCall authorizePayment] @ fst (handleError e PENDING),
                Rejected (snd (handleError e PENDING)))
           | Inr payment \<Rightarrow>
               ([PortCall validateAddress, PortCall authorizePayment],
                Promise_all [address, payment])))"
| "OrderActions adapters APPROVED =
     (case adapters pickOrder of
        Inl e \<Rightarrow>
          (PortCall pickOrder # fst (handleError e APPROVED), Rejected (snd (handleError e APPROVED)))
      | Inr _ \<Rightarrow> ([PortCall pickOrder], Fulfilled JUndefined))"
| "OrderActions adapters SHIPPING =
     (case adapters trackShipment of
        Inl e \<Rightarrow>
          (PortCall trackShipment # fst (handleError e SHIPPING), Rejected (snd (handleError e SHIPPING)))
      | Inr _ \<Rightarrow> ([PortCall trackShipment], Fulfilled JUndefined))"
| "OrderActions adapters CANCELED =
     (case adapters compensate of
        Inl e \<Rightarrow>
          (PortCall compensate # fst (handleError e CANCELED), Rejected (snd (handleError e CANCELED)))
      | Inr _ \<Rightarrow> ([PortCall compensate], Fulfilled JUndefined))"
| "OrderActions adapters COMPLETE =
     ([console_log ''do customer sentiment etc''], Fulfilled JUndefined)"

text \<open>
  \<^verbatim>\<open>
  export async function handleStatusChange(order) {
    return OrderActions[order.orderStatus](order);
  }
  \<close>
  \<^verbatim>\<open>OrderActions\<close> has no entry for an absent status: the call raises.
\<close>

definition handleStatusChange ::
  "(port \<Rightarrow> error + jsval promise \<times> nat) \<Rightarrow> Order \<Rightarrow> effect list \<times> jsval promise" where
  "handleStatusChange adapters order =
     (case orderStatus order of
        None \<Rightarrow> ([], Rejected (TypeError ''OrderActions[order.orderStatus] is not a function''))
      | Some s \<Rightarrow> OrderActions adapters s)"

text \<open>
  \<^verbatim>\<open>
  export async function handleOrderEvent({ model: order, eventType, changes }) {
    if (changes?.orderStatus || eventType === "CREATE") {
      await handleStatusChange(order);
    }
  }
  \<close>
  \<open>changes\<close> is \<open>None\<close> when the event carries no \<^verbatim>\<open>changes\<close> object.
\<close>

definition handleOrderEvent ::
  "(port \<Rightarrow> error + jsval promise \<times> nat) \<Rightarrow> Order \<Rightarrow> jsval \<Rightarrow> Order option
     \<Rightarrow> effect list \<times> jsval promise" where
  "handleOrderEvent adapters order eventType changes =
     (if (case changes of None \<Rightarrow> False | Some c \<Rightarrow> orderStatus c \<noteq> None)
         \<or> eventType = JStr ''CREATE''
      then (fst (handleStatusChange adapters order),
            await_then_undefined (snd (handleStatusChange adapters order)))
      else ([], Fulfilled JUndefined))"

section \<open>The factory\<close>

text \<open>
  \<^verbatim>\<open>
  function needSignature(input, orderTotal) {
    typeof input === "boolean" ? requireSignature : orderTotal > 999.99;
  }
  \<close>
  The body is an expression statement: its value is dropped and the function returns
  \<^verbatim>\<open>undefined\<close>. \<^verbatim>\<open>requireSignature\<close> is not declared in the scope of
  \<^verbatim>\<open>needSignature\<close> (it is a parameter of \<^verbatim>\<open>createOrder\<close>), so evaluating it
  raises a \<^verbatim>\<open>ReferenceError\<close>.
\<close>

definition needSignature :: "(real \<Rightarrow> number) \<Rightarrow> jsval \<Rightarrow> number \<Rightarrow> error + jsval" where
  "needSignature rnd input orderTotal' =
     (if typeof input = ''boolean''
      then Inl (ReferenceError ''requireSignature is not defined'')
      else (let dropped = js_greater orderTotal' (rnd 999.99) in Inr JUndefined))"

text \<open>The injected dependencies: \<open>uuid\<close> is what \<^verbatim>\<open>dependencies.uuid()\<close> returns, \<open>None\<close>
  when no \<^verbatim>\<open>uuid\<close> function was injected.\<close>

record dependencies =
  uuid :: "jsval option"

text \<open>A destructured parameter with the default \<^verbatim>\<open>null\<close>.\<close>

definition default_null :: "jsval \<Rightarrow> jsval" where
  "default_null v = (if v = JUndefined then JNull else v)"

text \<open>
  \<^verbatim>\<open>
  export function orderFactory(dependencies) {
    return async function createOrder({
      customerInfo, orderItems, billingAddress = null, shippingAddress = null,
      creditCardNumber = null, requireSignature,
    }) {
      const total = calcTotal(orderItems);
      checkFormat(creditCardNumber, "creditCard");
      const order = {
        customerInfo, orderItems, creditCardNumber, billingAddress, shippingAddress,
        signatureRequired: needSignature(requireSignature, total),
        [orderTotal]: total,
        [orderStatus]: OrderStatus.PENDING,
        [orderNo]: dependencies.uuid(),
      };
      return Object.freeze(order);
    };
  }
  \<close>
  \<^verbatim>\<open>checkFormat\<close> is imported from the mixins module, which is not part of these
  sources: it is a parameter, from the value and the name of the format to an exception
  or the value. The fields of the argument object are the arguments of \<open>orderFactory\<close>
  after the rounding and the two parameters.
\<close>

definition orderFactory ::
  "(real \<Rightarrow> number) \<Rightarrow> dependencies \<Rightarrow> (jsval \<Rightarrow> string \<Rightarrow> error + jsval)
     \<Rightarrow> jsval \<Rightarrow> items_arg \<Rightarrow> jsval \<Rightarrow> jsval \<Rightarrow> jsval \<Rightarrow> jsval \<Rightarrow> Order promise" where
  "orderFactory rnd deps checkFormat customerInfo' orderItems' billingAddress' shippingAddress'
       creditCardNumber' requireSignature =
     (case calcTotal rnd orderItems' of
        Inl e \<Rightarrow> Rejected e
      | Inr t \<Rightarrow>
          (case checkFormat (default_null creditCardNumber') ''creditCard'' of
             Inl e \<Rightarrow> Rejected e
           | Inr _ \<Rightarrow>
               (case needSignature rnd requireSignature t of
                  Inl e \<Rightarrow> Rejected e
                | Inr sig \<Rightarrow>
                    (case uuid deps of
                       None \<Rightarrow> Rejected (TypeError ''dependencies.uuid is not a function'')
                     | Some no \<Rightarrow>
                         Fulfilled
                           (emptyObject
                              \<lparr> customerInfo := customerInfo',
                                orderItems := orderItems',
                                creditCardNumber := default_null creditCardNumber',
                                billingAddress := default_null billingAddress',
                                shippingAddress := default_null shippingAddress',
                                signatureRequired := sig,
                                orderTotal := JNum t,
                                orderStatus := Some PENDING,
                                orderNo := no \<rparr>)))))"

section \<open>What the specification says\<close>

text \<open>
  The allowed transitions as the specification lists them: PENDING to APPROVED, APPROVED
  to SHIPPING, SHIPPING to COMPLETE, and PENDING, APPROVED or SHIPPING to CANCELED.
\<close>

fun allowedEdge :: "status \<Rightarrow> status \<Rightarrow> bool" where
  "allowedEdge PENDING APPROVED = True"
| "allowedEdge APPROVED SHIPPING = True"
| "allowedEdge SHIPPING COMPLETE = True"
| "allowedEdge PENDING CANCELED = True"
| "allowedEdge APPROVED CANCELED = True"
| "allowedEdge SHIPPING CANCELED = True"
| "allowedEdge _ _ = False"

text \<open>
  The order total as the specification states it: the sum over the items of price times
  quantity, the quantity being 1 when the item has none; added up from 0 in the order of
  the list, in the arithmetic of doubles.
\<close>

definition specTotal :: "(real \<Rightarrow> number) \<Rightarrow> item list \<Rightarrow> number" where
  "specTotal rnd items =
     foldl (js_plus rnd) (Finite 0)
       (map (\<lambda>i. js_times rnd (number_of (price i))
                   (case qty i of None \<Rightarrow> Finite 1 | Some q \<Rightarrow> q)) items)"

text \<open>
  An item whose price and quantity are natural numbers: \<open>natural_item (v, p, q)\<close> has
  the \<^verbatim>\<open>itemId\<close> \<open>v\<close>, the price \<open>p\<close> and the quantity \<open>q\<close> (none when \<open>q\<close> is
  \<open>None\<close>); \<open>counted q\<close> is the quantity that \<^verbatim>\<open>item.qty || 1\<close> counts.
\<close>

definition natural_item :: "jsval \<times> nat \<times> nat option \<Rightarrow> item" where
  "natural_item x =
     (case x of (v, p, q) \<Rightarrow>
        \<lparr> itemId = v, price = JNum (Finite (real p)),
          qty = map_option (\<lambda>k. Finite (real k)) q \<rparr>)"

definition counted :: "nat option \<Rightarrow> nat" where
  "counted q = (case q of None \<Rightarrow> 1 | Some k \<Rightarrow> if k = 0 then 1 else k)"

section \<open>Auxiliary facts\<close>

lemma PREVMODEL_guard_input: "PREVMODEL (guard_input ord prev) = prev"
  by (simp add: guard_input_def Order.defs guarded.defs)

lemma signatureRequired_guard_input:
  "signatureRequired (guard_input ord prev) = signatureRequired ord"
  by (simp add: guard_input_def Order.defs guarded.defs)

lemma checkItems_Array:
  "checkItems (Array xs) =
     (if xs \<noteq> [] \<and> list_all (\<lambda>i. truthy (itemId i) \<and> typeof (price i) = ''number'') xs
      then Inr xs else Inl (Error ''order items invalid''))"
  by simp

lemma checkItems_Single:
  "checkItems (Single i) =
     (if truthy (itemId i) \<and> typeof (price i) = ''number''
      then Inr [i] else Inl (Error ''order items invalid''))"
  by simp

lemma typeof_number: "typeof v = ''number'' \<longleftrightarrow> (\<exists>n. v = JNum n)"
  by (cases v) simp_all

lemma checkItems_prices:
  "checkItems arg = Inr items \<Longrightarrow> i \<in> set items \<Longrightarrow> \<exists>n. price i = JNum n"
  by (cases arg) (auto simp: list_all_iff typeof_number split: if_splits)

lemma qty_or_1_cases:
  "qty_or_1 i =
     (case qty i of None \<Rightarrow> Finite 1
      | Some q \<Rightarrow> if q = Finite 0 \<or> q = NaN then Finite 1 else q)"
  by (simp add: qty_or_1_def split: option.splits)

lemma calcTotal_accepted:
  "checkItems arg = Inr items \<Longrightarrow>
     calcTotal rnd arg =
       Inr (foldl (js_plus rnd) (Finite 0)
              (map (\<lambda>i. js_times rnd (number_of (price i)) (qty_or_1 i)) items))"
  by (simp add: calcTotal_def foldl_map)

lemma calcTotal_refused: "checkItems arg = Inl e \<Longrightarrow> calcTotal rnd arg = Inl e"
  by (simp add: calcTotal_def)

text \<open>
  Natural numbers up to \<open>2 ^ 53\<close> are added and multiplied without rounding error, so
  the total of items with natural prices and quantities is the exact sum as long as it
  does not exceed \<open>2 ^ 53\<close>.
\<close>

lemma exact_nat:
  "exact_on_safe_integers rnd \<Longrightarrow> n \<le> 2 ^ 53 \<Longrightarrow> rnd (real n) = Finite (real n)"
proof -
  assume e: "exact_on_safe_integers rnd" and n: "n \<le> 2 ^ 53"
  have "\<bar>int n\<bar> \<le> 2 ^ 53" using n by (simp add: of_nat_le_iff [of n "2 ^ 53", where ?'a = int, simplified])
  with e have "rnd (of_int (int n)) = Finite (of_int (int n))"
    unfolding exact_on_safe_integers_def by blast
  then show ?thesis by simp
qed

lemma exact_Finite: "exact_on_safe_integers Finite"
  by (simp add: exact_on_safe_integers_def)

lemma natural_item_simps:
  "itemId (natural_item (v, p, q)) = v"
  "price (natural_item (v, p, q)) = JNum (Finite (real p))"
  "qty_or_1 (natural_item (v, p, q)) = Finite (real (counted q))"
  by (auto simp: natural_item_def qty_or_1_def counted_def split: option.splits)

lemma natural_sum_exact:
  assumes "exact_on_safe_integers rnd"
  shows "a + (\<Sum>(v, p, q)\<leftarrow>xs. p * counted q) \<le> 2 ^ 53 \<Longrightarrow>
     foldl (js_plus rnd) (Finite (real a))
       (map (\<lambda>i. js_times rnd (number_of (price i)) (qty_or_1 i)) (map natural_item xs))
     = Finite (real (a + (\<Sum>(v, p, q)\<leftarrow>xs. p * counted q)))"
proof (induction xs arbitrary: a)
  case Nil
  then show ?case by simp
next
  case (Cons x xs)
  obtain v p q where x: "x = (v, p, q)" by (cases x)
  let ?rest = "\<Sum>(v, p, q)\<leftarrow>xs. p * counted q"
  from Cons.prems have bound: "a + p * counted q + ?rest \<le> 2 ^ 53"
    by (simp add: x add.assoc)
  then have "p * counted q \<le> 2 ^ 53" and "a + p * counted q \<le> 2 ^ 53"
    by linarith+
  then have prod: "rnd (real p * real (counted q)) = Finite (real (p * counted q))"
    and sum: "rnd (real a + real (p * counted q)) = Finite (real (a + p * counted q))"
    using exact_nat [OF assms, of "p * counted q"] exact_nat [OF assms, of "a + p * counted q"]
    by simp_all
  show ?case
    using Cons.IH [OF bound]
    by (simp add: x natural_item_simps prod sum add.assoc del: of_nat_mult of_nat_add)
qed

lemma needSignature_result:
  "needSignature rnd input t =
     (if typeof input = ''boolean'' then Inl (ReferenceError ''requireSignature is not defined'')
      else Inr JUndefined)"
  by (simp add: needSignature_def)

lemma orderFactory_signatureRequired:
  "orderFactory rnd deps checkFormat ci arg ba sa cc rs = Fulfilled ord \<Longrightarrow>
     signatureRequired ord = JUndefined"
  by (auto simp: orderFactory_def needSignature_result split: sum.splits option.splits if_splits)

lemma some_invalidStatusChanges:
  "PREVMODEL ob = Some prev \<Longrightarrow> orderStatus prev = Some old \<Longrightarrow>
   some (\<lambda>isc. isc ob new) invalidStatusChanges =
     Some ((old, new) \<in> {(APPROVED, PENDING), (SHIPPING, PENDING), (SHIPPING, APPROVED),
                          (PENDING, SHIPPING), (PENDING, COMPLETE)})"
  by (cases old; cases new) (simp_all add: invalidStatusChanges_def invalidStatusChange_def)

lemma freezeOnCompletion_no_snapshot:
  "PREVMODEL ob = None \<Longrightarrow> \<exists>e. freezeOnCompletion propKey ob = Inl e"
  by (simp add: freezeOnCompletion_def)

lemma OrderActions_effects_nonempty: "fst (OrderActions adapters s) \<noteq> []"
  by (cases s) (simp_all split: sum.splits)



lemma OrderActions_APPROVED_promise:
  "adapters pickOrder = Inr a \<Longrightarrow>
     OrderActions adapters APPROVED = ([PortCall pickOrder], Fulfilled JUndefined)"
  by simp


section \<open>The factory: scenario 1\<close>

text \<open>
  Claim C1. Creating an order through the factory with the items
  \<^verbatim>\<open>[{itemId:"a",price:500,qty:1},{itemId:"b",price:600,qty:1}]\<close> should give an order
  with \<^verbatim>\<open>orderTotal\<close> 1100, \<^verbatim>\<open>signatureRequired\<close> true and \<^verbatim>\<open>orderStatus\<close>
  PENDING. The code gives the total and the status, but \<^verbatim>\<open>needSignature\<close> has no
  \<^verbatim>\<open>return\<close>: the order it creates has \<^verbatim>\<open>signatureRequired\<close> undefined. The
  theorem runs the factory on the scenario, with a \<^verbatim>\<open>uuid\<close> dependency and a
  \<^verbatim>\<open>checkFormat\<close> that accepts, and no \<^verbatim>\<open>requireSignature\<close>, in any arithmetic
  that is exact on the integers up to \<open>2 ^ 53\<close>, as that of doubles is.
\<close>

theorem orderFactory_scenario1:
  "exact_on_safe_integers rnd \<Longrightarrow>
   \<exists>ord. orderFactory rnd \<lparr>uuid = Some (JStr ''order-1'')\<rparr> (\<lambda>v fmt. Inr v) JUndefined
            (Array [\<lparr>itemId = JStr ''a'', price = JNum (Finite 500), qty = Some (Finite 1)\<rparr>,
                    \<lparr>itemId = JStr ''b'', price = JNum (Finite 600), qty = Some (Finite 1)\<rparr>])
            JUndefined JUndefined JUndefined JUndefined = Fulfilled ord
      \<and> orderTotal ord = JNum (Finite 1100)
      \<and> orderStatus ord = Some PENDING
      \<and> signatureRequired ord = JUndefined
      \<and> signatureRequired ord \<noteq> JBool True"
proof -
  assume e: "exact_on_safe_integers rnd"
  have r: "rnd 500 = Finite 500" "rnd 600 = Finite 600" "rnd 1100 = Finite 1100"
    using exact_nat [OF e, of 500] exact_nat [OF e, of 600] exact_nat [OF e, of 1100]
    by simp_all
  have "calcTotal rnd
          (Array [\<lparr>itemId = JStr ''a'', price = JNum (Finite 500), qty = Some (Finite 1)\<rparr>,
                  \<lparr>itemId = JStr ''b'', price = JNum (Finite 600), qty = Some (Finite 1)\<rparr>])
        = Inr (Finite 1100)"
    by (simp add: calcTotal_def qty_or_1_def r)
  then show ?thesis
    by (simp add: orderFactory_def needSignature_def default_null_def)
qed

text \<open>Witness for C1: the scenario in the arithmetic that never rounds.\<close>

theorem orderFactory_scenario1_witness:
  "exact_on_safe_integers Finite
   \<and> (\<exists>ord. orderFactory Finite \<lparr>uuid = Some (JStr ''order-1'')\<rparr> (\<lambda>v fmt. Inr v) JUndefined
            (Array [\<lparr>itemId = JStr ''a'', price = JNum (Finite 500), qty = Some (Finite 1)\<rparr>,
                    \<lparr>itemId = JStr ''b'', price = JNum (Finite 600), qty = Some (Finite 1)\<rparr>])
            JUndefined JUndefined JUndefined JUndefined = Fulfilled ord
      \<and> orderTotal ord = JNum (Finite 1100)
      \<and> signatureRequired ord = JUndefined)"
  using orderFactory_scenario1 [of Finite] exact_Finite by blast

section \<open>The order total\<close>

text \<open>
  Claim C2, as amended. For every non-empty list of items in which each item has a truthy
  \<^verbatim>\<open>itemId\<close>, a numeric \<^verbatim>\<open>price\<close> and a \<^verbatim>\<open>qty\<close> that is absent or a number,
  \<^verbatim>\<open>calcTotal\<close> returns the sum over the items of price times quantity, added up from
  0 in the order of the list in the arithmetic of doubles, where the quantity is 1 when
  the item has no \<^verbatim>\<open>qty\<close> and also when its \<^verbatim>\<open>qty\<close> is 0 or \<^verbatim>\<open>NaN\<close>. When the
  prices and quantities are natural numbers and the sum is at most \<open>2 ^ 53\<close>, the result
  is that sum exactly. For an empty list \<^verbatim>\<open>calcTotal\<close> throws the error
  \<^verbatim>\<open>order items invalid\<close>, and for an absent argument the error
  \<^verbatim>\<open>order contains no items\<close>.
\<close>

theorem calcTotal_sum:
  "(items \<noteq> [] \<and> list_all (\<lambda>i. truthy (itemId i) \<and> typeof (price i) = ''number'') items \<longrightarrow>
      calcTotal rnd (Array items) =
        Inr (foldl (js_plus rnd) (Finite 0)
               (map (\<lambda>i. js_times rnd (number_of (price i))
                           (case qty i of None \<Rightarrow> Finite 1
                            | Some q \<Rightarrow> if q = Finite 0 \<or> q = NaN then Finite 1 else q))
                  items)))
   \<and> (exact_on_safe_integers rnd \<and> xs \<noteq> [] \<and> list_all (\<lambda>(v, p, q). truthy v) xs
        \<and> (\<Sum>(v, p, q)\<leftarrow>xs. p * counted q) \<le> 2 ^ 53 \<longrightarrow>
      calcTotal rnd (Array (map natural_item xs)) =
        Inr (Finite (real (\<Sum>(v, p, q)\<leftarrow>xs. p * counted q))))
   \<and> calcTotal rnd (Array []) = Inl (Error ''order items invalid'')
   \<and> calcTotal rnd Absent = Inl (Error ''order contains no items'')"
proof -
  have q: "qty_or_1 = (\<lambda>i. case qty i of None \<Rightarrow> Finite 1
                            | Some q \<Rightarrow> if q = Finite 0 \<or> q = NaN then Finite 1 else q)"
    by (rule ext) (rule qty_or_1_cases)
  have general: "calcTotal rnd (Array items) =
        Inr (foldl (js_plus rnd) (Finite 0)
               (map (\<lambda>i. js_times rnd (number_of (price i)) (qty_or_1 i)) items))"
    if "items \<noteq> []" "list_all (\<lambda>i. truthy (itemId i) \<and> typeof (price i) = ''number'') items"
    using that by (intro calcTotal_accepted) (simp only: checkItems_Array if_True simp_thms)
  have natural: "calcTotal rnd (Array (map natural_item xs)) =
        Inr (Finite (real (\<Sum>(v, p, q)\<leftarrow>xs. p * counted q)))"
    if e: "exact_on_safe_integers rnd" and ne: "xs \<noteq> []"
      and ids: "list_all (\<lambda>(v, p, q). truthy v) xs"
      and bound: "(\<Sum>(v, p, q)\<leftarrow>xs. p * counted q) \<le> 2 ^ 53"
  proof -
    have "list_all (\<lambda>i. truthy (itemId i) \<and> typeof (price i) = ''number'') (map natural_item xs)"
      using ids by (auto simp: list_all_iff natural_item_simps)
    then have "checkItems (Array (map natural_item xs)) = Inr (map natural_item xs)"
      using ne by simp
    from calcTotal_accepted [OF this, of rnd] natural_sum_exact [OF e, of 0 xs] bound
    show ?thesis by simp
  qed
  have empty: "calcTotal rnd (Array []) = Inl (Error ''order items invalid'')"
    by (intro calcTotal_refused) simp
  have absent: "calcTotal rnd Absent = Inl (Error ''order contains no items'')"
    by (intro calcTotal_refused) simp
  from general natural empty absent show ?thesis
    unfolding q by blast
qed

text \<open>Witness for C2: two accepted items, one without quantity, total 500 + 2 * 3.\<close>

theorem calcTotal_sum_witness:
  "calcTotal Finite (Array [\<lparr>itemId = JStr ''a'', price = JNum (Finite 500), qty = None\<rparr>,
                            \<lparr>itemId = JStr ''b'', price = JNum (Finite 2), qty = Some (Finite 3)\<rparr>])
     = Inr (Finite 506)
   \<and> exact_on_safe_integers Finite
   \<and> calcTotal Finite (Array (map natural_item [(JStr ''a'', 500, None), (JStr ''b'', 2, Some 3)]))
     = Inr (Finite 506)"
  using calcTotal_sum
          [of "[\<lparr>itemId = JStr ''a'', price = JNum (Finite 500), qty = None\<rparr>,
                \<lparr>itemId = JStr ''b'', price = JNum (Finite 2), qty = Some (Finite 3)\<rparr>]"
              Finite "[(JStr ''a'', 500, None), (JStr ''b'', 2, Some 3)]"]
        exact_Finite
  by (simp add: counted_def)

text \<open>
  Counterexample to C2 as stated: an accepted item with price 5 and \<^verbatim>\<open>qty\<close> 0. The sum
  of price times quantity is 0, while \<^verbatim>\<open>item.qty || 1\<close> makes the code return 5. On
  these integers no operation rounds.
\<close>

theorem calcTotal_qty_zero_counterexample:
  "list_all (\<lambda>i. truthy (itemId i) \<and> typeof (price i) = ''number'')
     [\<lparr>itemId = JStr ''a'', price = JNum (Finite 5), qty = Some (Finite 0)\<rparr>]
   \<and> calcTotal Finite (Array [\<lparr>itemId = JStr ''a'', price = JNum (Finite 5), qty = Some (Finite 0)\<rparr>])
       = Inr (Finite 5)
   \<and> specTotal Finite [\<lparr>itemId = JStr ''a'', price = JNum (Finite 5), qty = Some (Finite 0)\<rparr>]
       = Finite 0
   \<and> calcTotal Finite (Array [\<lparr>itemId = JStr ''a'', price = JNum (Finite 5), qty = Some (Finite 0)\<rparr>])
       \<noteq> Inr (specTotal Finite
                 [\<lparr>itemId = JStr ''a'', price = JNum (Finite 5), qty = Some (Finite 0)\<rparr>])"
  by (simp add: calcTotal_def specTotal_def qty_or_1_def)

section \<open>Status transitions\<close>

text \<open>
  Claim C3, as amended. For every order with a previous status, \<^verbatim>\<open>statusChangeValid\<close>
  rejects the proposed status, by throwing the error \<^verbatim>\<open>invalid status change\<close>, exactly
  when the transition is one of the five forbidden edges APPROVED to PENDING, SHIPPING to
  PENDING, SHIPPING to APPROVED, PENDING to SHIPPING and PENDING to COMPLETE; every other
  transition returns true, and so does every edge of the allowed set. The guard returns
  no order: it leaves the order as it is.
\<close>

theorem statusChangeValid_forbidden_edges:
  "PREVMODEL ob = Some prev \<Longrightarrow> orderStatus prev = Some old \<Longrightarrow>
     statusChangeValid ob new =
       (if (old, new) \<in> {(APPROVED, PENDING), (SHIPPING, PENDING), (SHIPPING, APPROVED),
                            (PENDING, SHIPPING), (PENDING, COMPLETE)}
        then Inl (Error ''invalid status change'') else Inr True)
     \<and> (allowedEdge old new \<longrightarrow> statusChangeValid ob new = Inr True)"
proof -
  assume a: "PREVMODEL ob = Some prev" "orderStatus prev = Some old"
  have 1: "statusChangeValid ob new =
       (if (old, new) \<in> {(APPROVED, PENDING), (SHIPPING, PENDING), (SHIPPING, APPROVED),
                            (PENDING, SHIPPING), (PENDING, COMPLETE)}
        then Inl (Error ''invalid status change'') else Inr True)"
    using a by (simp add: statusChangeValid_def some_invalidStatusChanges)
  have 2: "statusChangeValid ob new = Inr True" if "allowedEdge old new"
    using that unfolding 1 by (cases old; cases new) simp_all
  from 1 2 show ?thesis by blast
qed

text \<open>
  Witness for C3: from PENDING, COMPLETE is rejected and APPROVED is accepted.
\<close>

theorem statusChangeValid_forbidden_edges_witness:
  "PREVMODEL (guard_input emptyObject (Some (emptyObject\<lparr>orderStatus := Some PENDING\<rparr>)))
     = Some (emptyObject\<lparr>orderStatus := Some PENDING\<rparr>)
   \<and> orderStatus (emptyObject\<lparr>orderStatus := Some PENDING\<rparr>) = Some PENDING
   \<and> statusChangeValid
         (guard_input emptyObject (Some (emptyObject\<lparr>orderStatus := Some PENDING\<rparr>))) COMPLETE
       = Inl (Error ''invalid status change'')
   \<and> allowedEdge PENDING APPROVED
   \<and> statusChangeValid
         (guard_input emptyObject (Some (emptyObject\<lparr>orderStatus := Some PENDING\<rparr>))) APPROVED
       = Inr True"
  using statusChangeValid_forbidden_edges
          [of "guard_input emptyObject (Some (emptyObject\<lparr>orderStatus := Some PENDING\<rparr>))"
              "emptyObject\<lparr>orderStatus := Some PENDING\<rparr>" PENDING COMPLETE]
        statusChangeValid_forbidden_edges
          [of "guard_input emptyObject (Some (emptyObject\<lparr>orderStatus := Some PENDING\<rparr>))"
              "emptyObject\<lparr>orderStatus := Some PENDING\<rparr>" PENDING APPROVED]
  by (simp add: PREVMODEL_guard_input)

text \<open>
  Counterexample to C3 as stated: APPROVED to COMPLETE is not an edge of the allowed set,
  and \<^verbatim>\<open>statusChangeValid\<close> accepts it.
\<close>

theorem statusChangeValid_counterexample:
  "\<not> allowedEdge APPROVED COMPLETE
   \<and> statusChangeValid
         (guard_input (emptyObject\<lparr>orderStatus := Some COMPLETE\<rparr>)
                      (Some (emptyObject\<lparr>orderStatus := Some APPROVED\<rparr>))) COMPLETE
       = Inr True"
  by (simp add: statusChangeValid_def PREVMODEL_guard_input invalidStatusChanges_def
        invalidStatusChange_def)

text \<open>
  Claim C4. On a record whose previous snapshot has no \<^verbatim>\<open>orderStatus\<close> (there is no
  snapshot, or the snapshot has no status: the first write), \<^verbatim>\<open>statusChangeValid\<close>
  returns true and does not throw, whatever status is proposed.
\<close>

theorem statusChangeValid_first_write:
  "PREVMODEL ob = None \<or> (\<exists>prev. PREVMODEL ob = Some prev \<and> orderStatus prev = None) \<Longrightarrow>
     statusChangeValid ob propVal = Inr True"
  by (auto simp: statusChangeValid_def)

text \<open>Witness for C4: an object without snapshot, and one whose snapshot has no status.\<close>

theorem statusChangeValid_first_write_witness:
  "PREVMODEL (guard_input emptyObject None) = None
   \<and> statusChangeValid (guard_input emptyObject None) COMPLETE = Inr True
   \<and> PREVMODEL (guard_input emptyObject (Some emptyObject)) = Some emptyObject
   \<and> orderStatus emptyObject = None
   \<and> statusChangeValid (guard_input emptyObject (Some emptyObject)) SHIPPING = Inr True"
  using statusChangeValid_first_write [of "guard_input emptyObject None" COMPLETE]
        statusChangeValid_first_write [of "guard_input emptyObject (Some emptyObject)" SHIPPING]
  by (simp add: PREVMODEL_guard_input emptyObject_def)

section \<open>Frozen fields\<close>

text \<open>
  Claim C5. For every order with a previous snapshot, \<^verbatim>\<open>freezeOnCompletion(field)\<close>
  returns the name of the field exactly when the previous status is COMPLETE or CANCELED,
  and returns \<^verbatim>\<open>null\<close> otherwise; so, for every field, the update of the field under
  this guard is rejected when the previous status is COMPLETE or CANCELED, and passes the
  guard otherwise.
\<close>

theorem freezeOnCompletion_blocks:
  "PREVMODEL ob = Some prev \<Longrightarrow>
     (freezeOnCompletion field ob = Inr (Some field)
        \<longleftrightarrow> orderStatus prev = Some COMPLETE \<or> orderStatus prev = Some CANCELED)
     \<and> (\<not> (orderStatus prev = Some COMPLETE \<or> orderStatus prev = Some CANCELED) \<longrightarrow>
          freezeOnCompletion field ob = Inr None
          \<and> frozenUpdate freezeOnCompletion field ob = Inr ())
     \<and> (orderStatus prev = Some COMPLETE \<or> orderStatus prev = Some CANCELED \<longrightarrow>
          (\<exists>e. frozenUpdate freezeOnCompletion field ob = Inl e))"
  by (simp add: freezeOnCompletion_def frozenUpdate_def)

text \<open>
  Witness for C5: on a canceled order the update of a field is rejected, on an order in
  SHIPPING it passes.
\<close>

theorem freezeOnCompletion_blocks_witness:
  "PREVMODEL (guard_input emptyObject (Some (emptyObject\<lparr>orderStatus := Some CANCELED\<rparr>)))
     = Some (emptyObject\<lparr>orderStatus := Some CANCELED\<rparr>)
   \<and> freezeOnCompletion ''shippingAddress''
        (guard_input emptyObject (Some (emptyObject\<lparr>orderStatus := Some CANCELED\<rparr>)))
       = Inr (Some ''shippingAddress'')
   \<and> (\<exists>e. frozenUpdate freezeOnCompletion ''shippingAddress''
              (guard_input emptyObject (Some (emptyObject\<lparr>orderStatus := Some CANCELED\<rparr>)))
            = Inl e)
   \<and> freezeOnCompletion ''shippingAddress''
        (guard_input emptyObject (Some (emptyObject\<lparr>orderStatus := Some SHIPPING\<rparr>)))
       = Inr None
   \<and> frozenUpdate freezeOnCompletion ''shippingAddress''
        (guard_input emptyObject (Some (emptyObject\<lparr>orderStatus := Some SHIPPING\<rparr>)))
       = Inr ()"
  using freezeOnCompletion_blocks
          [of "guard_input emptyObject (Some (emptyObject\<lparr>orderStatus := Some CANCELED\<rparr>))"
              "emptyObject\<lparr>orderStatus := Some CANCELED\<rparr>" "''shippingAddress''"]
        freezeOnCompletion_blocks
          [of "guard_input emptyObject (Some (emptyObject\<lparr>orderStatus := Some SHIPPING\<rparr>))"
              "emptyObject\<lparr>orderStatus := Some SHIPPING\<rparr>" "''shippingAddress''"]
  by (simp add: PREVMODEL_guard_input)

section \<open>The signature requirement\<close>

text \<open>
  Claim C6, as amended. When \<^verbatim>\<open>signatureRequired\<close> is already true,
  \<^verbatim>\<open>updateSignature\<close> yields true for every new \<^verbatim>\<open>orderItems\<close> value that
  \<^verbatim>\<open>calcTotal\<close> accepts, whatever the recomputed total, and throws the error of
  \<^verbatim>\<open>calcTotal\<close> for a value that \<^verbatim>\<open>calcTotal\<close> refuses. When it is not already
  true, \<^verbatim>\<open>updateSignature\<close> yields true exactly when the recomputed total, a double, is
  greater than the double \<^verbatim>\<open>999.99\<close>.
\<close>

theorem updateSignature_monotonic:
  "(signatureRequired ob = JBool True \<longrightarrow>
      (\<forall>t. calcTotal rnd propVal = Inr t \<longrightarrow> updateSignature rnd ob propVal = Inr (JBool True))
      \<and> (\<forall>e. calcTotal rnd propVal = Inl e \<longrightarrow> updateSignature rnd ob propVal = Inl e))
   \<and> (signatureRequired ob \<noteq> JBool True \<longrightarrow> calcTotal rnd propVal = Inr t \<longrightarrow>
        (updateSignature rnd ob propVal = Inr (JBool True) \<longleftrightarrow> js_greater t (rnd 999.99)))"
  by (auto simp: updateSignature_def split: sum.splits)

text \<open>
  Witness for C6: a total of 10 keeps a true flag true and does not set an absent one, a
  total of 1000 sets it, and absent items throw.
\<close>

theorem updateSignature_monotonic_witness:
  "signatureRequired (guard_input (emptyObject\<lparr>signatureRequired := JBool True\<rparr>) None) = JBool True
   \<and> calcTotal Finite (Array [\<lparr>itemId = JStr ''a'', price = JNum (Finite 10), qty = None\<rparr>])
       = Inr (Finite 10)
   \<and> updateSignature Finite (guard_input (emptyObject\<lparr>signatureRequired := JBool True\<rparr>) None)
        (Array [\<lparr>itemId = JStr ''a'', price = JNum (Finite 10), qty = None\<rparr>]) = Inr (JBool True)
   \<and> calcTotal Finite Absent = Inl (Error ''order contains no items'')
   \<and> updateSignature Finite (guard_input (emptyObject\<lparr>signatureRequired := JBool True\<rparr>) None)
        Absent = Inl (Error ''order contains no items'')
   \<and> signatureRequired (guard_input emptyObject None) \<noteq> JBool True
   \<and> updateSignature Finite (guard_input emptyObject None)
        (Array [\<lparr>itemId = JStr ''a'', price = JNum (Finite 10), qty = None\<rparr>]) \<noteq> Inr (JBool True)
   \<and> updateSignature Finite (guard_input emptyObject None)
        (Array [\<lparr>itemId = JStr ''a'', price = JNum (Finite 1000), qty = None\<rparr>]) = Inr (JBool True)"
proof -
  have c10: "calcTotal Finite (Array [\<lparr>itemId = JStr ''a'', price = JNum (Finite 10), qty = None\<rparr>])
               = Inr (Finite 10)"
    by (simp add: calcTotal_def qty_or_1_def)
  have c1000: "calcTotal Finite (Array [\<lparr>itemId = JStr ''a'', price = JNum (Finite 1000), qty = None\<rparr>])
               = Inr (Finite 1000)"
    by (simp add: calcTotal_def qty_or_1_def)
  have absent: "calcTotal Finite Absent = Inl (Error ''order contains no items'')"
    by (simp add: calcTotal_def)
  show ?thesis
    using updateSignature_monotonic
            [of "guard_input (emptyObject\<lparr>signatureRequired := JBool True\<rparr>) None" Finite
                "Array [\<lparr>itemId = JStr ''a'', price = JNum (Finite 10), qty = None\<rparr>]" "Finite 10"]
          updateSignature_monotonic
            [of "guard_input (emptyObject\<lparr>signatureRequired := JBool True\<rparr>) None" Finite
                Absent "Finite 10"]
          updateSignature_monotonic
            [of "guard_input emptyObject None" Finite
                "Array [\<lparr>itemId = JStr ''a'', price = JNum (Finite 10), qty = None\<rparr>]" "Finite 10"]
          updateSignature_monotonic
            [of "guard_input emptyObject None" Finite
                "Array [\<lparr>itemId = JStr ''a'', price = JNum (Finite 1000), qty = None\<rparr>]" "Finite 1000"]
    by (simp add: c10 c1000 absent signatureRequired_guard_input emptyObject_def)
qed

text \<open>
  Counterexample to C6 as stated: with \<^verbatim>\<open>signatureRequired\<close> already true and the empty
  list as the new \<^verbatim>\<open>orderItems\<close> value, \<^verbatim>\<open>updateSignature\<close> throws and yields
  nothing.
\<close>

theorem updateSignature_empty_items_counterexample:
  "signatureRequired (guard_input (emptyObject\<lparr>signatureRequired := JBool True\<rparr>) None) = JBool True
   \<and> updateSignature Finite (guard_input (emptyObject\<lparr>signatureRequired := JBool True\<rparr>) None)
        (Array []) = Inl (Error ''order items invalid'')
   \<and> updateSignature Finite (guard_input (emptyObject\<lparr>signatureRequired := JBool True\<rparr>) None)
        (Array []) \<noteq> Inr (JBool True)"
  by (simp add: updateSignature_def calcTotal_def signatureRequired_guard_input emptyObject_def)

section \<open>Tracking updates\<close>

text \<open>
  Claim C7. For every order and every truthy \<^verbatim>\<open>trackingId\<close> and \<^verbatim>\<open>trackingStatus\<close>,
  \<^verbatim>\<open>trackingUpdate\<close> hands exactly one object of changes to \<^verbatim>\<open>order.update\<close>, which
  holds \<^verbatim>\<open>trackingId\<close> and \<^verbatim>\<open>trackingStatus\<close> and nothing else, so no
  \<^verbatim>\<open>orderStatus\<close>; the object it returns has \<^verbatim>\<open>done\<close> true exactly when
  \<^verbatim>\<open>trackingStatus\<close> is \<^verbatim>\<open>"orderDelivered"\<close>. When one of the two is missing it
  throws the error \<^verbatim>\<open>trackingId or trackingStatus missing\<close> and has handed nothing to
  \<^verbatim>\<open>order.update\<close>.
\<close>

theorem trackingUpdate_done:
  "(truthy tid \<and> truthy tst \<longrightarrow>
      fst (trackingUpdate update opts tid tst)
        = [emptyObject\<lparr>trackingId := tid, trackingStatus := tst\<rparr>]
      \<and> (\<forall>c \<in> set (fst (trackingUpdate update opts tid tst)). orderStatus c = None)
      \<and> (\<forall>r. snd (trackingUpdate update opts tid tst) = Fulfilled r \<longrightarrow>
             (result_done r \<longleftrightarrow> tst = JStr ''orderDelivered''))
      \<and> (\<forall>u. update (model opts) (emptyObject\<lparr>trackingId := tid, trackingStatus := tst\<rparr>)
                 = Fulfilled u \<longrightarrow>
             snd (trackingUpdate update opts tid tst)
               = Fulfilled \<lparr> result_done = (tst = JStr ''orderDelivered''), result_order = u \<rparr>))
   \<and> (\<not> truthy tid \<or> \<not> truthy tst \<longrightarrow>
        trackingUpdate update opts tid tst
          = ([], Rejected (Error ''trackingId or trackingStatus missing'')))"
proof -
  have missing: "trackingUpdate update opts tid tst
          = ([], Rejected (Error ''trackingId or trackingStatus missing''))"
    if "\<not> truthy tid \<or> \<not> truthy tst"
    using that by (auto simp: trackingUpdate_def)
  have present: "trackingUpdate update opts tid tst =
      ([emptyObject\<lparr>trackingId := tid, trackingStatus := tst\<rparr>],
       case update (model opts) (emptyObject\<lparr>trackingId := tid, trackingStatus := tst\<rparr>) of
         Pending \<Rightarrow> Pending
       | Rejected e \<Rightarrow> Rejected e
       | Fulfilled updated \<Rightarrow>
           Fulfilled \<lparr> result_done = (tst = JStr ''orderDelivered''), result_order = updated \<rparr>)"
    if "truthy tid" "truthy tst"
    using that by (simp add: trackingUpdate_def Let_def)
  have status: "orderStatus (emptyObject\<lparr>trackingId := tid, trackingStatus := tst\<rparr>) = None"
    by (simp add: emptyObject_def)
  show ?thesis
  proof (intro conjI impI allI ballI)
    assume "\<not> truthy tid \<or> \<not> truthy tst"
    then show "trackingUpdate update opts tid tst
          = ([], Rejected (Error ''trackingId or trackingStatus missing''))"
      by (rule missing)
  next
    assume t: "truthy tid \<and> truthy tst"
    then show "fst (trackingUpdate update opts tid tst)
        = [emptyObject\<lparr>trackingId := tid, trackingStatus := tst\<rparr>]"
      by (simp add: present)
  next
    fix c assume t: "truthy tid \<and> truthy tst"
      and "c \<in> set (fst (trackingUpdate update opts tid tst))"
    then show "orderStatus c = None"
      using status by (simp add: present)
  next
    fix r assume t: "truthy tid \<and> truthy tst"
      and "snd (trackingUpdate update opts tid tst) = Fulfilled r"
    then show "result_done r \<longleftrightarrow> tst = JStr ''orderDelivered''"
      by (auto simp: present split: promise.splits)
  next
    fix u assume t: "truthy tid \<and> truthy tst"
      and "update (model opts) (emptyObject\<lparr>trackingId := tid, trackingStatus := tst\<rparr>)
                 = Fulfilled u"
    then show "snd (trackingUpdate update opts tid tst)
               = Fulfilled \<lparr> result_done = (tst = JStr ''orderDelivered''), result_order = u \<rparr>"
      by (simp add: present)
  qed
qed

text \<open>
  Witness for C7, with an \<^verbatim>\<open>update\<close> that writes the two tracking fields: a delivered
  shipment of an order in SHIPPING reports \<^verbatim>\<open>done\<close> and the order stays in SHIPPING; a
  missing \<^verbatim>\<open>trackingId\<close> is rejected.
\<close>

theorem trackingUpdate_done_witness:
  "truthy (JStr ''T1'') \<and> truthy (JStr ''orderDelivered'')
   \<and> trackingUpdate
        (\<lambda>ord ch. Fulfilled (ord\<lparr>trackingId := trackingId ch, trackingStatus := trackingStatus ch\<rparr>))
        \<lparr>model = emptyObject\<lparr>orderStatus := Some SHIPPING\<rparr>\<rparr>
        (JStr ''T1'') (JStr ''orderDelivered'')
      = ([emptyObject\<lparr>trackingId := JStr ''T1'', trackingStatus := JStr ''orderDelivered''\<rparr>],
         Fulfilled \<lparr> result_done = True,
                     result_order = emptyObject\<lparr>orderStatus := Some SHIPPING,
                        trackingId := JStr ''T1'', trackingStatus := JStr ''orderDelivered''\<rparr> \<rparr>)
   \<and> \<not> truthy JUndefined
   \<and> trackingUpdate
        (\<lambda>ord ch. Fulfilled (ord\<lparr>trackingId := trackingId ch, trackingStatus := trackingStatus ch\<rparr>))
        \<lparr>model = emptyObject\<lparr>orderStatus := Some SHIPPING\<rparr>\<rparr>
        JUndefined (JStr ''orderDelivered'')
      = ([], Rejected (Error ''trackingId or trackingStatus missing''))"
  using trackingUpdate_done
          [of "JStr ''T1''" "JStr ''orderDelivered''"
              "\<lambda>ord ch. Fulfilled (ord\<lparr>trackingId := trackingId ch, trackingStatus := trackingStatus ch\<rparr>)"
              "\<lparr>model = emptyObject\<lparr>orderStatus := Some SHIPPING\<rparr>\<rparr>"]
        trackingUpdate_done
          [of JUndefined "JStr ''orderDelivered''"
              "\<lambda>ord ch. Fulfilled (ord\<lparr>trackingId := trackingId ch, trackingStatus := trackingStatus ch\<rparr>)"
              "\<lparr>model = emptyObject\<lparr>orderStatus := Some SHIPPING\<rparr>\<rparr>"]
  by (simp add: prod_eq_iff emptyObject_def)

section \<open>The event dispatcher\<close>

text \<open>
  Claim C8. For every order event, \<^verbatim>\<open>handleOrderEvent\<close> has the effects of the action
  of the order's current status if \<^verbatim>\<open>orderStatus\<close> is among the changed fields or the
  event type is \<^verbatim>\<open>CREATE\<close>, and no effect otherwise; every action has an effect, so the
  two cases differ. An update whose changes hold \<^verbatim>\<open>trackingId\<close> alone runs no action.
\<close>

theorem handleOrderEvent_dispatch:
  "orderStatus order = Some s \<Longrightarrow>
     fst (handleOrderEvent adapters order eventType changes) =
       (if (\<exists>c. changes = Some c \<and> orderStatus c \<noteq> None) \<or> eventType = JStr ''CREATE''
        then fst (OrderActions adapters s) else [])
     \<and> fst (OrderActions adapters s) \<noteq> []
     \<and> handleOrderEvent adapters order (JStr ''UPDATE'') (Some (emptyObject\<lparr>trackingId := tid\<rparr>))
         = ([], Fulfilled JUndefined)"
proof -
  assume s: "orderStatus order = Some s"
  have c: "(case changes of None \<Rightarrow> False | Some c \<Rightarrow> orderStatus c \<noteq> None)
             \<longleftrightarrow> (\<exists>c. changes = Some c \<and> orderStatus c \<noteq> None)"
    by (cases changes) simp_all
  have 1: "fst (handleOrderEvent adapters order eventType changes) =
       (if (\<exists>c. changes = Some c \<and> orderStatus c \<noteq> None) \<or> eventType = JStr ''CREATE''
        then fst (OrderActions adapters s) else [])"
    unfolding handleOrderEvent_def c by (auto simp: handleStatusChange_def s)
  have 3: "handleOrderEvent adapters order (JStr ''UPDATE'') (Some (emptyObject\<lparr>trackingId := tid\<rparr>))
         = ([], Fulfilled JUndefined)"
    by (simp add: handleOrderEvent_def emptyObject_def)
  from 1 OrderActions_effects_nonempty 3 show ?thesis by blast
qed

text \<open>
  Witness for C8: on an order in SHIPPING, an update that changes the status starts the
  tracking, and an update of \<^verbatim>\<open>trackingId\<close> alone does nothing.
\<close>

theorem handleOrderEvent_dispatch_witness:
  "orderStatus (emptyObject\<lparr>orderStatus := Some SHIPPING\<rparr>) = Some SHIPPING
   \<and> fst (handleOrderEvent (\<lambda>p. Inr (Pending, 0)) (emptyObject\<lparr>orderStatus := Some SHIPPING\<rparr>)
            (JStr ''UPDATE'') (Some (emptyObject\<lparr>orderStatus := Some SHIPPING\<rparr>)))
       = [PortCall trackShipment]
   \<and> fst (handleOrderEvent (\<lambda>p. Inr (Pending, 0)) (emptyObject\<lparr>orderStatus := Some SHIPPING\<rparr>)
            (JStr ''UPDATE'') (Some (emptyObject\<lparr>trackingId := JStr ''T1''\<rparr>)))
       = []"
  using handleOrderEvent_dispatch
          [of "emptyObject\<lparr>orderStatus := Some SHIPPING\<rparr>" SHIPPING "\<lambda>p. Inr (Pending, 0)"
              "JStr ''UPDATE''" "Some (emptyObject\<lparr>orderStatus := Some SHIPPING\<rparr>)" "JStr ''T1''"]
  by (simp add: emptyObject_def)

section \<open>The PENDING action\<close>




section \<open>A single item\<close>

text \<open>
  Claim C10. For every single item object, not in an array, that has a truthy
  \<^verbatim>\<open>itemId\<close> and a numeric \<^verbatim>\<open>price\<close>, \<^verbatim>\<open>checkItems\<close> returns the one-element list
  of that item, \<^verbatim>\<open>calcTotal\<close> returns 0 plus its price times its quantity in the
  arithmetic of doubles, and the factory creates an order from it (given a \<^verbatim>\<open>uuid\<close>
  dependency, a credit card number that \<^verbatim>\<open>checkFormat\<close> accepts, and a
  \<^verbatim>\<open>requireSignature\<close> that is not a boolean).
\<close>

theorem checkItems_single_item:
  "truthy (itemId i) \<Longrightarrow> typeof (price i) = ''number'' \<Longrightarrow>
     checkItems (Single i) = Inr [i]
     \<and> calcTotal rnd (Single i)
         = Inr (js_plus rnd (Finite 0)
                  (js_times rnd (number_of (price i))
                     (case qty i of None \<Rightarrow> Finite 1
                      | Some q \<Rightarrow> if q = Finite 0 \<or> q = NaN then Finite 1 else q)))
     \<and> (uuid deps = Some no \<longrightarrow> checkFormat (default_null cc) ''creditCard'' = Inr v \<longrightarrow>
          typeof rs \<noteq> ''boolean'' \<longrightarrow>
          (\<exists>ord. orderFactory rnd deps checkFormat ci (Single i) ba sa cc rs = Fulfilled ord
                 \<and> orderItems ord = Single i
                 \<and> orderStatus ord = Some PENDING))"
proof -
  assume a: "truthy (itemId i)" "typeof (price i) = ''number''"
  have 1: "checkItems (Single i) = Inr [i]"
    using a by simp
  have 2: "calcTotal rnd (Single i)
         = Inr (js_plus rnd (Finite 0) (js_times rnd (number_of (price i)) (qty_or_1 i)))"
    using calcTotal_accepted [OF 1, of rnd] by simp
  have 3: "\<exists>ord. orderFactory rnd deps checkFormat ci (Single i) ba sa cc rs = Fulfilled ord
                 \<and> orderItems ord = Single i \<and> orderStatus ord = Some PENDING"
    if "uuid deps = Some no" "checkFormat (default_null cc) ''creditCard'' = Inr v"
       "typeof rs \<noteq> ''boolean''"
    using that by (simp add: orderFactory_def 2 needSignature_result)
  from 1 2 3 show ?thesis unfolding qty_or_1_cases by blast
qed

text \<open>Witness for C10: one item of price 500 and no quantity.\<close>

theorem checkItems_single_item_witness:
  "truthy (itemId \<lparr>itemId = JStr ''a'', price = JNum (Finite 500), qty = None\<rparr>)
   \<and> typeof (price \<lparr>itemId = JStr ''a'', price = JNum (Finite 500), qty = None\<rparr>) = ''number''
   \<and> checkItems (Single \<lparr>itemId = JStr ''a'', price = JNum (Finite 500), qty = None\<rparr>)
       = Inr [\<lparr>itemId = JStr ''a'', price = JNum (Finite 500), qty = None\<rparr>]
   \<and> calcTotal Finite (Single \<lparr>itemId = JStr ''a'', price = JNum (Finite 500), qty = None\<rparr>)
       = Inr (Finite 500)
   \<and> (\<exists>ord. orderFactory Finite \<lparr>uuid = Some (JStr ''order-2'')\<rparr> (\<lambda>v fmt. Inr v) JUndefined
               (Single \<lparr>itemId = JStr ''a'', price = JNum (Finite 500), qty = None\<rparr>)
               JUndefined JUndefined JUndefined JUndefined = Fulfilled ord
             \<and> orderItems ord = Single \<lparr>itemId = JStr ''a'', price = JNum (Finite 500), qty = None\<rparr>
             \<and> orderStatus ord = Some PENDING)"
  using checkItems_single_item
          [where i = "\<lparr>itemId = JStr ''a'', price = JNum (Finite 500), qty = None\<rparr>"
             and deps = "\<lparr>uuid = Some (JStr ''order-2'')\<rparr>" and no = "JStr ''order-2''"
             and checkFormat = "\<lambda>v fmt. Inr v" and cc = JUndefined and v = JNull
             and rs = JUndefined and rnd = Finite and ci = JUndefined and ba = JUndefined
             and sa = JUndefined]
  by (simp add: default_null_def)

end
